theory Spec2Isabelle
  imports Main
begin

section \<open>Node-group stacks of pkg/cfn/manager/nodegroup.go\<close>

text \<open>
  A shallow embedding of the node-group functions of the stack manager. Go strings are
  byte sequences and are modelled as \<open>string\<close>. The SDK structures hold \<open>*string\<close>
  fields which the functions dereference unconditionally; they are modelled by their
  pointee, that is, for stacks and tags as the service returns them, with these fields
  set. A Go \<open>map[string]string\<close> that is ranged over is an association list in the order
  of the iteration. External services are functions of a \<open>StackCollection\<close> record; the
  calls made, the values sent on the error channel and the log lines are recorded in a
  \<open>world\<close> that every effectful function takes and returns.
\<close>

subsection \<open>Errors\<close>

datatype error =
    New string
  | Wrapf error string "string list"
  | Errorf string "string list"
  | ServiceError string

text \<open>
  \<open>New msg\<close> is \<open>errors.New(msg)\<close>, \<open>Wrapf err format args\<close> is
  \<open>errors.Wrapf(err, format, args...)\<close>, \<open>Errorf format args\<close> is \<open>fmt.Errorf\<close>, and
  \<open>ServiceError\<close> is an error value handed back by an external API.
\<close>

subsection \<open>Constants of package api\<close>

text \<open>
  The tag keys and the node-group type values are declared in package api, which is not
  among the sources at hand: the functions take them as a parameter \<open>K\<close>.
\<close>

record api_consts =
  NodeGroupNameTag :: string
  OldNodeGroupNameTag :: string
  OldNodeGroupIDTag :: string
  NodeGroupTypeTag :: string
  NodeGroupTypeManaged :: string
  NodeGroupTypeUnmanaged :: string

text \<open>
  A concrete instance of the constants, with the tag scheme of eksctl, for evaluating the
  functions at concrete inputs. The general theorems hold for every choice of \<open>K\<close>.
\<close>

definition eksctl_consts :: api_consts where
  "eksctl_consts =
     \<lparr>NodeGroupNameTag = ''alpha.eksctl.io/nodegroup-name'',
      OldNodeGroupNameTag = ''eksctl.cluster.k8s.io/v1alpha1/nodegroup-name'',
      OldNodeGroupIDTag = ''eksctl.cluster.k8s.io/v1alpha1/nodegroup-id'',
      NodeGroupTypeTag = ''alpha.eksctl.io/nodegroup-type'',
      NodeGroupTypeManaged = ''managed'',
      NodeGroupTypeUnmanaged = ''unmanaged''\<rparr>"

text \<open>The stack statuses of the CloudFormation SDK that the listing looks at.\<close>

definition StackStatusDeleteComplete :: string where
  "StackStatusDeleteComplete = ''DELETE_COMPLETE''"

definition StackStatusDeleteFailed :: string where
  "StackStatusDeleteFailed = ''DELETE_FAILED''"

subsection \<open>Stacks and tags\<close>

record Tag =
  Key :: string
  Value :: string

record Stack =
  StackName :: string
  StackStatus :: string
  Tags :: "Tag list"

record ManagedNodeGroup =
  Name :: string
  ngTags :: "(string \<times> string) list"
  DisableASGTagPropagation :: "bool option"

record AsgTag =
  ResourceId :: string
  ResourceType :: string
  TagKey :: string
  TagValue :: string
  PropagateAtLaunch :: bool

record DescribeNodegroupInput =
  ClusterName :: string
  NodegroupName :: string

text \<open>
  Of the describe-node-group output only \<open>Nodegroup.Resources\<close> is read: \<open>None\<close> is
  the nil pointer, \<open>Some names\<close> the names of the autoscaling groups.
\<close>

record DescribeNodegroupOutput =
  Resources :: "string list option"

record DescribeStackResourceInput =
  InputStackName :: string
  LogicalResourceId :: string

subsection \<open>The world: calls, channel and log\<close>

datatype call =
    CallDescribeClusterStack
  | CallDescribeNodegroup DescribeNodegroupInput
  | CallCreateOrUpdateTags "AsgTag list"
  | CallDescribeStackResource DescribeStackResourceInput
  | CallNewManagedBootstrapper
  | CallNewManagedNodeGroup
  | CallAddAllResources
  | CallCreateStack string "(string \<times> string) list"

datatype logline =
    Info string "string list"
  | Warning string "string list"

record world =
  calls :: "call list"
  errorCh :: "error option list"
  logged :: "logline list"

definition emit :: "call \<Rightarrow> world \<Rightarrow> world" where
  "emit c w = w\<lparr>calls := calls w @ [c]\<rparr>"

definition send :: "error option \<Rightarrow> world \<Rightarrow> world" where
  "send r w = w\<lparr>errorCh := errorCh w @ [r]\<rparr>"

definition logline :: "logline \<Rightarrow> world \<Rightarrow> world" where
  "logline l w = w\<lparr>logged := logged w @ [l]\<rparr>"

definition world0 :: world where
  "world0 = \<lparr>calls = [], errorCh = [], logged = []\<rparr>"

text \<open>
  The stack collection: the cluster name and the IPv6 flag of its spec, the external
  APIs, and the methods of the collection that live in other files of the package
  (\<open>DescribeStacks\<close>, \<open>DescribeClusterStack\<close>, \<open>CreateStack\<close>, \<open>getClusterNameTag\<close>) and
  the resource-set builder, each given by what it returns. \<open>CreateStack\<close> returns its
  synchronous error and what its watcher later sends on the channel.
\<close>

record StackCollection =
  MetadataName :: string
  IPv6Enabled :: bool
  DescribeNodegroup :: "DescribeNodegroupInput \<Rightarrow> error + DescribeNodegroupOutput"
  CreateOrUpdateTags :: "AsgTag list \<Rightarrow> error option"
  DescribeStackResource :: "DescribeStackResourceInput \<Rightarrow> error + string"
  DescribeStacks :: "error + Stack list"
  DescribeClusterStack :: "error + Stack option"
  AddAllResources :: "error option"
  CreateStack :: "string \<Rightarrow> (string \<times> string) list \<Rightarrow> error option \<times> error option list"
  getClusterNameTag :: "Stack \<Rightarrow> string"

subsection \<open>Names and types from tags\<close>

definition isNameKey :: "api_consts \<Rightarrow> Tag \<Rightarrow> bool" where
  "isNameKey K t \<longleftrightarrow>
     Key t = NodeGroupNameTag K \<or> Key t = OldNodeGroupNameTag K \<or> Key t = OldNodeGroupIDTag K"

definition isTypeKey :: "api_consts \<Rightarrow> Tag \<Rightarrow> bool" where
  "isTypeKey K t \<longleftrightarrow> Key t = NodeGroupTypeTag K"

definition hasNameTag :: "api_consts \<Rightarrow> Tag list \<Rightarrow> bool" where
  "hasNameTag K tags = list_ex (isNameKey K) tags"

definition hasTypeTag :: "api_consts \<Rightarrow> Tag list \<Rightarrow> bool" where
  "hasTypeTag K tags = list_ex (isTypeKey K) tags"

fun GetNodegroupTagName :: "api_consts \<Rightarrow> Tag list \<Rightarrow> string" where
  "GetNodegroupTagName K [] = []"
| "GetNodegroupTagName K (t # ts) =
     (if Key t = NodeGroupNameTag K \<or> Key t = OldNodeGroupNameTag K \<or> Key t = OldNodeGroupIDTag K
      then Value t
      else GetNodegroupTagName K ts)"

text \<open>The loop of \<open>GetNodeGroupType\<close>: every type tag overwrites \<open>nodeGroupType\<close>.\<close>

fun scanNodeGroupType :: "api_consts \<Rightarrow> Tag list \<Rightarrow> string \<Rightarrow> string" where
  "scanNodeGroupType K [] nodeGroupType = nodeGroupType"
| "scanNodeGroupType K (t # ts) nodeGroupType =
     scanNodeGroupType K ts (if Key t = NodeGroupTypeTag K then Value t else nodeGroupType)"

definition GetNodeGroupType :: "api_consts \<Rightarrow> Tag list \<Rightarrow> error + string" where
  "GetNodeGroupType K tags =
     (if GetNodegroupTagName K tags = [] then Inl (New ''failed to find the nodegroup name tag'')
      else
        let nodeGroupType = scanNodeGroupType K tags [] in
        if nodeGroupType = [] then Inr (NodeGroupTypeUnmanaged K) else Inr nodeGroupType)"

text \<open>\<open>strings.HasSuffix\<close>: the last \<open>len(suffix)\<close> bytes of \<open>s\<close> are \<open>suffix\<close>.\<close>

definition HasSuffix :: "string \<Rightarrow> string \<Rightarrow> bool" where
  "HasSuffix s suffix \<longleftrightarrow>
     length suffix \<le> length s \<and> drop (length s - length suffix) s = suffix"

definition GetNodeGroupName :: "api_consts \<Rightarrow> Stack \<Rightarrow> string" where
  "GetNodeGroupName K s =
     (let tagName = GetNodegroupTagName K (Tags s) in
      if tagName \<noteq> [] then tagName
      else if HasSuffix (StackName s) ''-nodegroup-0'' then ''legacy-nodegroup-0''
      else if HasSuffix (StackName s) ''-DefaultNodeGroup'' then ''legacy-default''
      else [])"

text \<open>
  The resolution as the specification words it, for comparison: the current name tag,
  then the legacy name tag, then the legacy id tag, then the suffix heuristics.
\<close>

definition tagValue :: "string \<Rightarrow> Tag list \<Rightarrow> string option" where
  "tagValue k tags = map_option Value (find (\<lambda>t. Key t = k) tags)"

definition legacyNameOfStackName :: "string \<Rightarrow> string" where
  "legacyNameOfStackName n =
     (if HasSuffix n ''-nodegroup-0'' then ''legacy-nodegroup-0''
      else if HasSuffix n ''-DefaultNodeGroup'' then ''legacy-default''
      else [])"

definition spec_GetNodeGroupName :: "api_consts \<Rightarrow> Stack \<Rightarrow> string" where
  "spec_GetNodeGroupName K s =
     (case tagValue (NodeGroupNameTag K) (Tags s) of
        Some v \<Rightarrow> v
      | None \<Rightarrow>
          (case tagValue (OldNodeGroupNameTag K) (Tags s) of
             Some v \<Rightarrow> v
           | None \<Rightarrow>
               (case tagValue (OldNodeGroupIDTag K) (Tags s) of
                  Some v \<Rightarrow> v
                | None \<Rightarrow> legacyNameOfStackName (StackName s))))"

subsection \<open>Listing node-group stacks\<close>

fun nodeGroupStacksLoop ::
  "api_consts \<Rightarrow> Stack list \<Rightarrow> Stack list \<Rightarrow> world \<Rightarrow> Stack list \<times> world" where
  "nodeGroupStacksLoop K [] nodeGroupStacks w = (nodeGroupStacks, w)"
| "nodeGroupStacksLoop K (s # ss) nodeGroupStacks w =
     (if StackStatus s = StackStatusDeleteComplete then nodeGroupStacksLoop K ss nodeGroupStacks w
      else if StackStatus s = StackStatusDeleteFailed then
        nodeGroupStacksLoop K ss nodeGroupStacks
          (logline (Warning ''stack's status of nodegroup named %s is %s''
                      [StackName s, StackStatus s]) w)
      else if GetNodeGroupName K s \<noteq> [] then nodeGroupStacksLoop K ss (nodeGroupStacks @ [s]) w
      else nodeGroupStacksLoop K ss nodeGroupStacks w)"

text \<open>
  The nil slice of the early return is the empty list. The closing debug line is not
  recorded.
\<close>

definition DescribeNodeGroupStacks ::
  "api_consts \<Rightarrow> StackCollection \<Rightarrow> world \<Rightarrow> (error + Stack list) \<times> world" where
  "DescribeNodeGroupStacks K c w =
     (case DescribeStacks c of
        Inl err \<Rightarrow> (Inl err, w)
      | Inr stacks \<Rightarrow>
          if length stacks = 0 then (Inr [], w)
          else
            let (nodeGroupStacks, w') = nodeGroupStacksLoop K stacks [] w in
            (Inr nodeGroupStacks, w'))"

subsection \<open>Autoscaling group names\<close>

definition GetUnmanagedNodeGroupAutoScalingGroupName ::
  "StackCollection \<Rightarrow> Stack \<Rightarrow> world \<Rightarrow> (error + string) \<times> world" where
  "GetUnmanagedNodeGroupAutoScalingGroupName c s w =
     (let input = \<lparr>InputStackName = StackName s, LogicalResourceId = ''NodeGroup''\<rparr>;
          w1 = emit (CallDescribeStackResource input) w in
      case DescribeStackResource c input of
        Inl err \<Rightarrow> (Inl err, w1)
      | Inr physicalResourceId \<Rightarrow> (Inr physicalResourceId, w1))"

fun Join :: "string list \<Rightarrow> string \<Rightarrow> string" where
  "Join [] sep = []"
| "Join [x] sep = x"
| "Join (x # y # ys) sep = x @ sep @ Join (y # ys) sep"

definition getManagedNodeGroupAutoScalingGroupName ::
  "api_consts \<Rightarrow> StackCollection \<Rightarrow> Stack \<Rightarrow> world \<Rightarrow> (error + string) \<times> world" where
  "getManagedNodeGroupAutoScalingGroupName K c s w =
     (let input = \<lparr>ClusterName = getClusterNameTag c s, NodegroupName = GetNodeGroupName K s\<rparr>;
          w1 = emit (CallDescribeNodegroup input) w in
      case DescribeNodegroup c input of
        Inl err \<Rightarrow>
          (Inr [],
           logline (Warning ''couldn't get managed nodegroup details for stack %q'' [StackName s]) w1)
      | Inr res \<Rightarrow>
          (case Resources res of
             None \<Rightarrow> (Inr (Join [] '',''), w1)
           | Some asgs \<Rightarrow> (Inr (Join asgs '',''), w1)))"

definition GetAutoScalingGroupName ::
  "api_consts \<Rightarrow> StackCollection \<Rightarrow> Stack \<Rightarrow> world \<Rightarrow> (error + string) \<times> world" where
  "GetAutoScalingGroupName K c s w =
     (case GetNodeGroupType K (Tags s) of
        Inl err \<Rightarrow> (Inl err, w)
      | Inr nodeGroupType \<Rightarrow>
          if nodeGroupType = NodeGroupTypeManaged K then
            getManagedNodeGroupAutoScalingGroupName K c s w
          else if nodeGroupType = NodeGroupTypeUnmanaged K \<or> nodeGroupType = [] then
            GetUnmanagedNodeGroupAutoScalingGroupName c s w
          else
            (Inl (Errorf ''cant get autoscaling group name, because unexpected nodegroup type : %q''
                    [nodeGroupType]), w))"

subsection \<open>Creating a managed node group\<close>

definition makeNodeGroupStackName :: "StackCollection \<Rightarrow> string \<Rightarrow> string" where
  "makeNodeGroupStackName c name = ''eksctl-'' @ MetadataName c @ ''-nodegroup-'' @ name"

definition createManagedNodeGroupTask ::
  "StackCollection \<Rightarrow> ManagedNodeGroup \<Rightarrow> world \<Rightarrow> error option \<times> world" where
  "createManagedNodeGroupTask c ng w =
     (let name = makeNodeGroupStackName c (Name ng);
          w1 = emit CallDescribeClusterStack w in
      case DescribeClusterStack c of
        Inl err \<Rightarrow> (Some err, w1)
      | Inr cluster \<Rightarrow>
          if cluster = None \<and> IPv6Enabled c then
            (Some (New ''managed nodegroups cannot be created on IPv6 unowned clusters''), w1)
          else
            let w2 = logline (Info ''building managed nodegroup stack %q'' [name]) w1;
                w3 = emit CallNewManagedBootstrapper w2;
                w4 = emit CallNewManagedNodeGroup w3;
                w5 = emit CallAddAllResources w4 in
            (case AddAllResources c of
               Some err \<Rightarrow> (Some err, w5)
             | None \<Rightarrow>
                 let w6 = emit (CallCreateStack name (ngTags ng)) w5;
                     (err, sent) = CreateStack c name (ngTags ng) in
                 (err, w6\<lparr>errorCh := errorCh w6 @ sent\<rparr>)))"

subsection \<open>Propagating the tags of a managed node group to its autoscaling groups\<close>

definition asgTagOf :: "string \<Rightarrow> string \<times> string \<Rightarrow> AsgTag" where
  "asgTagOf asg kv =
     \<lparr>ResourceId = asg, ResourceType = ''auto-scaling-group'',
      TagKey = fst kv, TagValue = snd kv, PropagateAtLaunch = False\<rparr>"

text \<open>The two nested loops that append one record per autoscaling group and tag.\<close>

fun tagsLoop :: "string \<Rightarrow> (string \<times> string) list \<Rightarrow> AsgTag list \<Rightarrow> AsgTag list" where
  "tagsLoop asg [] asgTags = asgTags"
| "tagsLoop asg (kv # kvs) asgTags = tagsLoop asg kvs (asgTags @ [asgTagOf asg kv])"

fun asgLoop :: "string list \<Rightarrow> (string \<times> string) list \<Rightarrow> AsgTag list \<Rightarrow> AsgTag list" where
  "asgLoop [] tags asgTags = asgTags"
| "asgLoop (asg # asgs) tags asgTags = asgLoop asgs tags (tagsLoop asg tags asgTags)"

definition propagateManagedNodeGroupTagsToASGTask ::
  "StackCollection \<Rightarrow> ManagedNodeGroup \<Rightarrow> world \<Rightarrow> error option \<times> world" where
  "propagateManagedNodeGroupTagsToASGTask c ng w =
     (if DisableASGTagPropagation ng \<noteq> None \<and> the (DisableASGTagPropagation ng) then (None, w)
      else
        let input = \<lparr>ClusterName = MetadataName c, NodegroupName = Name ng\<rparr>;
            w1 = emit (CallDescribeNodegroup input) w in
        case DescribeNodegroup c input of
          Inl err \<Rightarrow>
            (Some (Wrapf err ''couldn't get managed nodegroup details for nodegroup %q'' [Name ng]),
             w1)
        | Inr res \<Rightarrow>
            (case Resources res of
               None \<Rightarrow> (None, send None w1)
             | Some asgs \<Rightarrow>
                 let asgTags = asgLoop asgs (ngTags ng) [];
                     w2 = emit (CallCreateOrUpdateTags asgTags) w1 in
                 (case CreateOrUpdateTags c asgTags of
                    Some err \<Rightarrow>
                      (Some (Wrapf err
                         ''creating or updating asg tags for managed nodegroup %q'' [Name ng]), w2)
                  | None \<Rightarrow> (None, send None w2))))"

text \<open>What the trace says about the network: the sizes of the tagging calls, in order.\<close>

fun taggingCallSizes :: "call list \<Rightarrow> nat list" where
  "taggingCallSizes [] = []"
| "taggingCallSizes (CallCreateOrUpdateTags ts # cs) = length ts # taggingCallSizes cs"
| "taggingCallSizes (_ # cs) = taggingCallSizes cs"

text \<open>
  Modelled from the spec: the quotas \<open>MaximumTagNumber\<close> and
  \<open>MaximumCreatedTagNumberPerCall\<close> of package builder, which is not among the sources;
  the specification gives 50 and 25. No function of nodegroup.go reads them.
\<close>

definition MaximumTagNumber :: nat where
  "MaximumTagNumber = 50"

definition MaximumCreatedTagNumberPerCall :: nat where
  "MaximumCreatedTagNumberPerCall = 25"

text \<open>
  The tag maps that the tests of the propagation build: \<open>tag_key_i\<close> bound to
  \<open>tag_value_i\<close>, for \<open>i\<close> below \<open>n\<close>.
\<close>

fun digitsOf :: "nat \<Rightarrow> string" where
  "digitsOf n =
     (if n < 10 then [char_of (48 + n)] else digitsOf (n div 10) @ [char_of (48 + n mod 10)])"

declare digitsOf.simps [simp del]

definition testTags :: "nat \<Rightarrow> (string \<times> string) list" where
  "testTags n = map (\<lambda>i. (''tag_key_'' @ digitsOf i, ''tag_value_'' @ digitsOf i)) [0..<n]"

definition testNodeGroup :: "nat \<Rightarrow> ManagedNodeGroup" where
  "testNodeGroup n =
     \<lparr>Name = ''ng-test-name'', ngTags = testTags n, DisableASGTagPropagation = None\<rparr>"

text \<open>
  A collection whose services answer as the mocks of the tests do: the node group has
  the given autoscaling groups and every call succeeds.
\<close>

definition mockCollection :: "string list option \<Rightarrow> StackCollection" where
  "mockCollection asgs =
     \<lparr>MetadataName = ''test-cluster'', IPv6Enabled = False,
      DescribeNodegroup = (\<lambda>_. Inr \<lparr>Resources = asgs\<rparr>),
      CreateOrUpdateTags = (\<lambda>_. None),
      DescribeStackResource = (\<lambda>_. Inr ''asg-test-name''),
      DescribeStacks = Inr [],
      DescribeClusterStack = Inr None,
      AddAllResources = None,
      CreateStack = (\<lambda>_ _. (None, [None])),
      getClusterNameTag = (\<lambda>_. ''test-cluster'')\<rparr>"

section \<open>UpdateStack\<close>

text \<open>
  Modelled from the spec: \<open>UpdateStack\<close> and the change-set protocol it drives are
  declared in pkg/cfn/manager/api.go, which is not among the sources; only its tests
  (\<open>api_test.go\<close>) are. The definitions below follow the seven steps of the state machine
  of the specification. The service is given by what each of its operations answers;
  the wait for the change set answers with the terminal status and its reason.
\<close>

definition ChangeSetStatusFailed :: string where
  "ChangeSetStatusFailed = ''FAILED''"

definition ChangeSetStatusCreateComplete :: string where
  "ChangeSetStatusCreateComplete = ''CREATE_COMPLETE''"

definition noChangeReason :: string where
  "noChangeReason = ''didn't contain changes''"

text \<open>\<open>strings.Contains\<close>: \<open>substr\<close> occurs at some position of \<open>s\<close>.\<close>

fun Contains :: "string \<Rightarrow> string \<Rightarrow> bool" where
  "Contains [] substr = (substr = [])"
| "Contains (c # cs) substr = (take (length substr) (c # cs) = substr \<or> Contains cs substr)"

record UpdateStackOptions =
  OptStack :: "Stack option"
  OptStackName :: string
  ChangeSetName :: string
  Description :: string
  TemplateData :: string
  Wait :: bool

record CreateChangeSetInput =
  ForStack :: string
  ForChangeSet :: string
  WithTemplate :: string
  WithTags :: "Tag list"

record ChangeSetState =
  Status :: string
  StatusReason :: string

datatype update_call =
    UDescribeStack string
  | UCreateChangeSet CreateChangeSetInput
  | UWaitChangeSet string
  | UExecuteChangeSet string string
  | UWaitStackUpdate string

record UpdateService =
  ClusterNameTag :: string
  OwnClusterName :: string
  MetadataTags :: "Tag list"
  DescribeStack :: "string \<Rightarrow> error + Stack"
  CreateChangeSet :: "CreateChangeSetInput \<Rightarrow> error option"
  WaitChangeSet :: "string \<Rightarrow> error + ChangeSetState"
  ExecuteChangeSet :: "string \<Rightarrow> string \<Rightarrow> error option"
  WaitStackUpdate :: "string \<Rightarrow> error option"

text \<open>
  Step 2: the existing tags, then the metadata tags and the generated cluster-name tag,
  a key that is already there keeping its value.
\<close>

fun addTags :: "Tag list \<Rightarrow> Tag list \<Rightarrow> Tag list" where
  "addTags tags [] = tags"
| "addTags tags (t # ts) =
     addTags (if list_ex (\<lambda>u. Key u = Key t) tags then tags else tags @ [t]) ts"

definition mergedTags :: "UpdateService \<Rightarrow> Stack \<Rightarrow> Tag list" where
  "mergedTags svc stack =
     addTags (Tags stack)
       (MetadataTags svc @ [\<lparr>Key = ClusterNameTag svc, Value = OwnClusterName svc\<rparr>])"

definition UpdateStack ::
  "UpdateService \<Rightarrow> UpdateStackOptions \<Rightarrow> error option \<times> update_call list" where
  "UpdateStack svc options =
     (let (resolved, t1) =
            (case OptStack options of
               Some s \<Rightarrow> (Inr s, [])
             | None \<Rightarrow>
                 (DescribeStack svc (OptStackName options),
                  [UDescribeStack (OptStackName options)]))
      in
      case resolved of
        Inl err \<Rightarrow> (Some err, t1)
      | Inr stack \<Rightarrow>
          let input = \<lparr>ForStack = StackName stack, ForChangeSet = ChangeSetName options,
                       WithTemplate = TemplateData options, WithTags = mergedTags svc stack\<rparr>;
              t3 = t1 @ [UCreateChangeSet input]
          in
          (case CreateChangeSet svc input of
             Some err \<Rightarrow> (Some err, t3)
           | None \<Rightarrow>
               let t4 = t3 @ [UWaitChangeSet (ChangeSetName options)] in
               (case WaitChangeSet svc (ChangeSetName options) of
                  Inl err \<Rightarrow> (Some err, t4)
                | Inr st \<Rightarrow>
                    if Status st = ChangeSetStatusFailed \<and> Contains (StatusReason st) noChangeReason
                    then (None, t4)
                    else if Status st \<noteq> ChangeSetStatusCreateComplete
                    then (Some (Errorf ''change set %q failed: %s''
                                  [ChangeSetName options, StatusReason st]), t4)
                    else
                      let t6 = t4 @ [UExecuteChangeSet (ChangeSetName options) (StackName stack)] in
                      (case ExecuteChangeSet svc (ChangeSetName options) (StackName stack) of
                         Some err \<Rightarrow> (Some err, t6)
                       | None \<Rightarrow>
                           if Wait options
                           then (WaitStackUpdate svc (StackName stack),
                                 t6 @ [UWaitStackUpdate (StackName stack)])
                           else (None, t6)))))"

fun isExecute :: "update_call \<Rightarrow> bool" where
  "isExecute (UExecuteChangeSet _ _) = True"
| "isExecute _ = False"

text \<open>The service of the test "succeeds if no changes required".\<close>

definition noChangeService :: UpdateService where
  "noChangeService =
     \<lparr>ClusterNameTag = ''alpha.eksctl.io/cluster-name'', OwnClusterName = [],
      MetadataTags = [],
      DescribeStack = (\<lambda>n. Inr \<lparr>StackName = n, StackStatus = ''CREATE_COMPLETE'', Tags = []\<rparr>),
      CreateChangeSet = (\<lambda>_. None),
      WaitChangeSet =
        (\<lambda>_. Inr \<lparr>Status = ''FAILED'',
                  StatusReason = ''The submitted information didn't contain changes''\<rparr>),
      ExecuteChangeSet = (\<lambda>_ _. Some (ServiceError ''ExecuteChangeSet is not mocked'')),
      WaitStackUpdate = (\<lambda>_. Some (ServiceError ''DescribeStacksRequest is not mocked''))\<rparr>"

definition noChangeOptions :: UpdateStackOptions where
  "noChangeOptions =
     \<lparr>OptStack = None, OptStackName = ''eksctl-stack'', ChangeSetName = ''eksctl-changeset'',
      Description = ''description'', TemplateData = [], Wait = True\<rparr>"

section \<open>Concrete inputs\<close>

text \<open>Stacks, tags and failing services at which the functions are evaluated below.\<close>

definition listedStacks :: "Stack list" where
  "listedStacks =
     [\<lparr>StackName = ''eksctl-c-nodegroup-a'', StackStatus = ''DELETE_COMPLETE'',
       Tags = [\<lparr>Key = ''alpha.eksctl.io/nodegroup-name'', Value = ''a''\<rparr>]\<rparr>,
      \<lparr>StackName = ''eksctl-c-nodegroup-b'', StackStatus = ''DELETE_FAILED'',
       Tags = [\<lparr>Key = ''alpha.eksctl.io/nodegroup-name'', Value = ''b''\<rparr>]\<rparr>,
      \<lparr>StackName = ''eksctl-c-nodegroup-d'', StackStatus = ''CREATE_COMPLETE'',
       Tags = [\<lparr>Key = ''alpha.eksctl.io/nodegroup-name'', Value = ''d''\<rparr>]\<rparr>,
      \<lparr>StackName = ''eksctl-c-cluster'', StackStatus = ''CREATE_COMPLETE'', Tags = []\<rparr>,
      \<lparr>StackName = ''eksctl-c-nodegroup-0'', StackStatus = ''UPDATE_COMPLETE'', Tags = []\<rparr>]"

definition spotTags :: "Tag list" where
  "spotTags = [\<lparr>Key = ''alpha.eksctl.io/nodegroup-name'', Value = ''ng-1''\<rparr>,
               \<lparr>Key = ''alpha.eksctl.io/nodegroup-type'', Value = ''spot''\<rparr>]"

definition failingDescribe :: StackCollection where
  "failingDescribe =
     (mockCollection None)\<lparr>DescribeNodegroup := (\<lambda>_. Inl (ServiceError ''ResourceNotFoundException''))\<rparr>"

definition failingTagging :: StackCollection where
  "failingTagging =
     (mockCollection (Some [''asg-test-name'']))
       \<lparr>CreateOrUpdateTags := (\<lambda>_. Some (ServiceError ''ValidationError''))\<rparr>"

definition disabledNodeGroup :: ManagedNodeGroup where
  "disabledNodeGroup = (testNodeGroup 1)\<lparr>DisableASGTagPropagation := Some True\<rparr>"

definition managedStack :: Stack where
  "managedStack =
     \<lparr>StackName = ''eksctl-c-nodegroup-ng-1'', StackStatus = ''CREATE_COMPLETE'',
      Tags = [\<lparr>Key = ''alpha.eksctl.io/nodegroup-name'', Value = ''ng-1''\<rparr>,
              \<lparr>Key = ''alpha.eksctl.io/nodegroup-type'', Value = ''managed''\<rparr>]\<rparr>"

section \<open>Properties\<close>

subsection \<open>Auxiliary facts\<close>

lemma GetNodegroupTagName_find:
  "GetNodegroupTagName K tags = (case find (isNameKey K) tags of None \<Rightarrow> [] | Some t \<Rightarrow> Value t)"
  by (induction tags) (simp_all add: isNameKey_def)

lemma find_app: "find P (xs @ ys) = (case find P xs of None \<Rightarrow> find P ys | Some x \<Rightarrow> Some x)"
  by (induction xs) simp_all

lemma scanNodeGroupType_find:
  "scanNodeGroupType K tags acc =
     (case find (isTypeKey K) (rev tags) of None \<Rightarrow> acc | Some t \<Rightarrow> Value t)"
  by (induction tags arbitrary: acc) (simp_all add: isTypeKey_def find_app split: option.splits)

lemma find_unique:
  "length (filter P xs) \<le> 1 \<Longrightarrow> find Q xs = Some t \<Longrightarrow> (\<And>x. Q x \<Longrightarrow> P x) \<Longrightarrow> find P xs = Some t"
proof (induction xs)
  case Nil
  then show ?case by simp
next
  case (Cons x xs)
  show ?case
  proof (cases "Q x")
    case True
    with Cons.prems show ?thesis by simp
  next
    case False
    show ?thesis
    proof (cases "P x")
      case True
      with Cons.prems(1) have "filter P xs = []" by simp
      then have "\<forall>y\<in>set xs. \<not> P y" by (simp add: filter_empty_conv)
      with Cons.prems(3) have "\<forall>y\<in>set xs. \<not> Q y" by blast
      then have "find Q xs = None" by (simp add: find_None_iff)
      with Cons.prems(2) False show ?thesis by simp
    next
      case False
      with Cons \<open>\<not> Q x\<close> show ?thesis by simp
    qed
  qed
qed

lemma HasSuffix_iff: "HasSuffix s suffix \<longleftrightarrow> (\<exists>p. s = p @ suffix)"
proof
  assume "HasSuffix s suffix"
  then have "s = take (length s - length suffix) s @ suffix"
    by (metis HasSuffix_def append_take_drop_id)
  then show "\<exists>p. s = p @ suffix" ..
next
  assume "\<exists>p. s = p @ suffix"
  then show "HasSuffix s suffix" by (auto simp: HasSuffix_def)
qed

lemma GetNodeGroupName_legacy:
  "GetNodeGroupName K s =
     (if GetNodegroupTagName K (Tags s) \<noteq> [] then GetNodegroupTagName K (Tags s)
      else legacyNameOfStackName (StackName s))"
  by (simp add: GetNodeGroupName_def legacyNameOfStackName_def Let_def)

lemma spec_GetNodeGroupName_unique:
  assumes "length (filter (isNameKey K) tags) \<le> 1"
  shows "(case tagValue (NodeGroupNameTag K) tags of
            Some v \<Rightarrow> Some v
          | None \<Rightarrow>
             (case tagValue (OldNodeGroupNameTag K) tags of
                Some v \<Rightarrow> Some v
              | None \<Rightarrow> tagValue (OldNodeGroupIDTag K) tags))
         = map_option Value (find (isNameKey K) tags)"
proof (cases "find (\<lambda>t. Key t = NodeGroupNameTag K) tags")
  case (Some t)
  then have "find (isNameKey K) tags = Some t"
    using find_unique [OF assms, of "\<lambda>t. Key t = NodeGroupNameTag K" t] by (simp add: isNameKey_def)
  with Some show ?thesis by (simp add: tagValue_def)
next
  case n1: None
  show ?thesis
  proof (cases "find (\<lambda>t. Key t = OldNodeGroupNameTag K) tags")
    case (Some t)
    then have "find (isNameKey K) tags = Some t"
      using find_unique [OF assms, of "\<lambda>t. Key t = OldNodeGroupNameTag K" t]
      by (simp add: isNameKey_def)
    with Some n1 show ?thesis by (simp add: tagValue_def)
  next
    case n2: None
    show ?thesis
    proof (cases "find (\<lambda>t. Key t = OldNodeGroupIDTag K) tags")
      case (Some t)
      then have "find (isNameKey K) tags = Some t"
        using find_unique [OF assms, of "\<lambda>t. Key t = OldNodeGroupIDTag K" t]
        by (simp add: isNameKey_def)
      with Some n1 n2 show ?thesis by (simp add: tagValue_def)
    next
      case n3: None
      from n1 n2 n3 have "find (isNameKey K) tags = None"
        by (auto simp: find_None_iff isNameKey_def)
      with n1 n2 n3 show ?thesis by (simp add: tagValue_def)
    qed
  qed
qed

lemma nodeGroupStacksLoop_filter:
  "fst (nodeGroupStacksLoop K stacks acc w) =
     acc @ filter (\<lambda>s. StackStatus s \<noteq> StackStatusDeleteComplete
                      \<and> StackStatus s \<noteq> StackStatusDeleteFailed
                      \<and> GetNodeGroupName K s \<noteq> []) stacks"
  by (induction stacks arbitrary: acc w) simp_all

lemma nodeGroupStacksLoop_calls:
  "calls (snd (nodeGroupStacksLoop K stacks acc w)) = calls w
   \<and> errorCh (snd (nodeGroupStacksLoop K stacks acc w)) = errorCh w"
  by (induction stacks arbitrary: acc w) (simp_all add: logline_def)

lemma tagsLoop_map: "tagsLoop asg tags acc = acc @ map (asgTagOf asg) tags"
  by (induction tags arbitrary: acc) simp_all

lemma asgLoop_concat:
  "asgLoop asgs tags acc = acc @ concat (map (\<lambda>asg. map (asgTagOf asg) tags) asgs)"
  by (induction asgs arbitrary: acc) (simp_all add: tagsLoop_map)

lemma length_asgLoop: "length (asgLoop asgs tags []) = length asgs * length tags"
  by (induction asgs) (simp_all add: asgLoop_concat)

lemma length_testTags: "length (testTags n) = n"
  by (simp add: testTags_def)

lemma propagate_succeeds:
  assumes "DisableASGTagPropagation ng \<noteq> Some True"
    and "DescribeNodegroup c \<lparr>ClusterName = MetadataName c, NodegroupName = Name ng\<rparr> = Inr res"
    and "Resources res = Some asgs"
    and "CreateOrUpdateTags c (asgLoop asgs (ngTags ng) []) = None"
  shows "propagateManagedNodeGroupTagsToASGTask c ng w =
     (None,
      send None
        (emit (CallCreateOrUpdateTags (asgLoop asgs (ngTags ng) []))
           (emit (CallDescribeNodegroup \<lparr>ClusterName = MetadataName c, NodegroupName = Name ng\<rparr>) w)))"
  using assms by (auto simp: propagateManagedNodeGroupTagsToASGTask_def Let_def)

lemma propagate_mock:
  "propagateManagedNodeGroupTagsToASGTask (mockCollection (Some asgs)) (testNodeGroup n) world0 =
     (None,
      \<lparr>calls = [CallDescribeNodegroup \<lparr>ClusterName = ''test-cluster'', NodegroupName = ''ng-test-name''\<rparr>,
                CallCreateOrUpdateTags (asgLoop asgs (testTags n) [])],
       errorCh = [None], logged = []\<rparr>)"
  by (simp add: propagateManagedNodeGroupTagsToASGTask_def mockCollection_def testNodeGroup_def
      world0_def emit_def send_def Let_def)

lemma Contains_iff: "Contains s substr \<longleftrightarrow> (\<exists>p q. s = p @ substr @ q)"
proof (induction s)
  case Nil
  then show ?case by simp
next
  case (Cons c cs)
  have pre: "take (length substr) (c # cs) = substr \<longleftrightarrow> (\<exists>q. c # cs = substr @ q)"
    by (metis append_eq_conv_conj append_take_drop_id)
  show ?case
  proof
    assume "Contains (c # cs) substr"
    then consider "take (length substr) (c # cs) = substr" | "Contains cs substr" by auto
    then show "\<exists>p q. c # cs = p @ substr @ q"
    proof cases
      case 1
      with pre obtain q where "c # cs = [] @ substr @ q" by auto
      then show ?thesis by blast
    next
      case 2
      with Cons.IH obtain p q where "cs = p @ substr @ q" by blast
      then have "c # cs = (c # p) @ substr @ q" by simp
      then show ?thesis by blast
    qed
  next
    assume "\<exists>p q. c # cs = p @ substr @ q"
    then obtain p q where pq: "c # cs = p @ substr @ q" by blast
    show "Contains (c # cs) substr"
    proof (cases p)
      case Nil
      with pq have "\<exists>q. c # cs = substr @ q" by auto
      with pre have "take (length substr) (c # cs) = substr" by blast
      then show ?thesis by simp
    next
      case (Cons a p')
      with pq have "cs = p' @ substr @ q" by simp
      with Cons.IH show ?thesis by auto
    qed
  qed
qed

subsection \<open>The quota on the number of tags\<close>

text \<open>
  C1, evaluated on the code. The claim: a tag map larger than \<open>MaximumTagNumber\<close> makes
  the propagation deliver an error mentioning "maximum amount for asg" on the channel
  without any network call, as the test "cannot propagate if to many tags" expects. The
  task of nodegroup.go has no such check: with 51 tags and one autoscaling group it calls
  describe-node-group, sends all 51 records in one tagging call, returns nil and
  delivers nil on the channel.
\<close>

theorem propagate_over_quota:
  "MaximumTagNumber < length (ngTags (testNodeGroup 51))
   \<and> fst (propagateManagedNodeGroupTagsToASGTask (mockCollection (Some [''asg-test-name'']))
            (testNodeGroup 51) world0) = None
   \<and> calls (snd (propagateManagedNodeGroupTagsToASGTask (mockCollection (Some [''asg-test-name'']))
            (testNodeGroup 51) world0)) =
       [CallDescribeNodegroup \<lparr>ClusterName = ''test-cluster'', NodegroupName = ''ng-test-name''\<rparr>,
        CallCreateOrUpdateTags (map (asgTagOf ''asg-test-name'') (testTags 51))]
   \<and> errorCh (snd (propagateManagedNodeGroupTagsToASGTask (mockCollection (Some [''asg-test-name'']))
            (testNodeGroup 51) world0)) = [None]"
  unfolding propagate_mock
  by (simp add: asgLoop_concat length_testTags testNodeGroup_def MaximumTagNumber_def)

subsection \<open>Batches of tagging calls\<close>

text \<open>
  C2, evaluated on the code. The claim: the records are sent in batches of at most
  \<open>MaximumCreatedTagNumberPerCall\<close>, so that 30 tags on one autoscaling group make two
  tagging calls of sizes 25 and 5, as the test on chunks of 25 expects. The task of
  nodegroup.go does not batch: it makes one tagging call with all 30 records, and then
  delivers nil on the channel.
\<close>

theorem propagate_thirty_tags:
  "length (ngTags (testNodeGroup 30)) = 30
   \<and> fst (propagateManagedNodeGroupTagsToASGTask (mockCollection (Some [''asg-test-name'']))
            (testNodeGroup 30) world0) = None
   \<and> taggingCallSizes
       (calls (snd (propagateManagedNodeGroupTagsToASGTask (mockCollection (Some [''asg-test-name'']))
            (testNodeGroup 30) world0))) = [30]
   \<and> MaximumCreatedTagNumberPerCall < 30
   \<and> errorCh (snd (propagateManagedNodeGroupTagsToASGTask (mockCollection (Some [''asg-test-name'']))
            (testNodeGroup 30) world0)) = [None]"
  unfolding propagate_mock
  by (simp add: asgLoop_concat length_testTags testNodeGroup_def MaximumCreatedTagNumberPerCall_def)

subsection \<open>What the propagation task returns and delivers\<close>

text \<open>
  C3, amended. The propagation task returns nil synchronously on success, delivering
  nil on the channel, and when propagation is disabled for the node group, then without
  any network call. A failure of describe-node-group or of the tagging call is returned
  synchronously, wrapped with the name of the node group, and nothing is delivered on
  the channel.
\<close>

theorem propagate_outcomes:
  "(DisableASGTagPropagation ng = Some True \<longrightarrow>
      fst (propagateManagedNodeGroupTagsToASGTask c ng w) = None
      \<and> calls (snd (propagateManagedNodeGroupTagsToASGTask c ng w)) = calls w)
   \<and> (DisableASGTagPropagation ng \<noteq> Some True
      \<and> DescribeNodegroup c \<lparr>ClusterName = MetadataName c, NodegroupName = Name ng\<rparr> = Inl err \<longrightarrow>
      fst (propagateManagedNodeGroupTagsToASGTask c ng w) =
        Some (Wrapf err ''couldn't get managed nodegroup details for nodegroup %q'' [Name ng])
      \<and> errorCh (snd (propagateManagedNodeGroupTagsToASGTask c ng w)) = errorCh w)
   \<and> (DisableASGTagPropagation ng \<noteq> Some True
      \<and> DescribeNodegroup c \<lparr>ClusterName = MetadataName c, NodegroupName = Name ng\<rparr> = Inr res
      \<and> Resources res = Some asgs
      \<and> CreateOrUpdateTags c (asgLoop asgs (ngTags ng) []) = Some err \<longrightarrow>
      fst (propagateManagedNodeGroupTagsToASGTask c ng w) =
        Some (Wrapf err ''creating or updating asg tags for managed nodegroup %q'' [Name ng])
      \<and> errorCh (snd (propagateManagedNodeGroupTagsToASGTask c ng w)) = errorCh w)
   \<and> (DisableASGTagPropagation ng \<noteq> Some True
      \<and> DescribeNodegroup c \<lparr>ClusterName = MetadataName c, NodegroupName = Name ng\<rparr> = Inr res
      \<and> (Resources res = None
          \<or> (\<exists>asgs. Resources res = Some asgs
                \<and> CreateOrUpdateTags c (asgLoop asgs (ngTags ng) []) = None)) \<longrightarrow>
      fst (propagateManagedNodeGroupTagsToASGTask c ng w) = None
      \<and> errorCh (snd (propagateManagedNodeGroupTagsToASGTask c ng w)) = errorCh w @ [None])"
  by (auto simp: propagateManagedNodeGroupTagsToASGTask_def Let_def emit_def send_def)

theorem propagate_outcomes_witness:
  "fst (propagateManagedNodeGroupTagsToASGTask failingDescribe disabledNodeGroup world0) = None
   \<and> calls (snd (propagateManagedNodeGroupTagsToASGTask failingDescribe disabledNodeGroup world0)) = []
   \<and> fst (propagateManagedNodeGroupTagsToASGTask failingDescribe (testNodeGroup 1) world0) =
       Some (Wrapf (ServiceError ''ResourceNotFoundException'')
               ''couldn't get managed nodegroup details for nodegroup %q'' [''ng-test-name''])
   \<and> fst (propagateManagedNodeGroupTagsToASGTask failingTagging (testNodeGroup 1) world0) =
       Some (Wrapf (ServiceError ''ValidationError'')
               ''creating or updating asg tags for managed nodegroup %q'' [''ng-test-name''])
   \<and> errorCh (snd (propagateManagedNodeGroupTagsToASGTask failingTagging (testNodeGroup 1) world0)) = []
   \<and> fst (propagateManagedNodeGroupTagsToASGTask (mockCollection (Some [''asg-test-name'']))
            (testNodeGroup 1) world0) = None
   \<and> errorCh (snd (propagateManagedNodeGroupTagsToASGTask (mockCollection (Some [''asg-test-name'']))
            (testNodeGroup 1) world0)) = [None]"
  using propagate_outcomes [where ng = disabledNodeGroup and c = failingDescribe and w = world0]
    propagate_outcomes [where ng = "testNodeGroup 1" and c = failingDescribe and w = world0
      and err = "ServiceError ''ResourceNotFoundException''"]
    propagate_outcomes [where ng = "testNodeGroup 1" and c = failingTagging and w = world0
      and res = "\<lparr>Resources = Some [''asg-test-name'']\<rparr>" and asgs = "[''asg-test-name'']"
      and err = "ServiceError ''ValidationError''"]
    propagate_outcomes [where ng = "testNodeGroup 1"
      and c = "mockCollection (Some [''asg-test-name''])" and w = world0
      and res = "\<lparr>Resources = Some [''asg-test-name'']\<rparr>"]
  by (simp add: disabledNodeGroup_def failingDescribe_def failingTagging_def mockCollection_def
      testNodeGroup_def world0_def)

text \<open>
  As stated, with every failure delivered only on the channel and nil returned, C3 fails
  when describe-node-group fails: the error is the return value and the channel stays
  empty.
\<close>

theorem propagate_outcomes_counterexample:
  "fst (propagateManagedNodeGroupTagsToASGTask failingDescribe (testNodeGroup 1) world0) =
     Some (Wrapf (ServiceError ''ResourceNotFoundException'')
             ''couldn't get managed nodegroup details for nodegroup %q'' [''ng-test-name''])
   \<and> errorCh (snd (propagateManagedNodeGroupTagsToASGTask failingDescribe (testNodeGroup 1) world0)) = []"
  by (simp add: propagateManagedNodeGroupTagsToASGTask_def failingDescribe_def mockCollection_def
      testNodeGroup_def world0_def emit_def Let_def)

subsection \<open>Errors and the default of GetNodeGroupType\<close>

text \<open>
  C4, amended. \<open>GetNodeGroupType\<close> returns an error if and only if no name-identifying
  tag is present or the first one in list order has an empty value. When it returns no
  error, it returns Unmanaged if and only if no type tag is present or the value of the
  last type tag is empty or is the Unmanaged value itself.
\<close>

theorem GetNodeGroupType_error_and_default:
  "(isl (GetNodeGroupType K tags) \<longleftrightarrow>
      (case find (isNameKey K) tags of None \<Rightarrow> True | Some t \<Rightarrow> Value t = []))
   \<and> (\<not> isl (GetNodeGroupType K tags) \<longrightarrow>
        (GetNodeGroupType K tags = Inr (NodeGroupTypeUnmanaged K) \<longleftrightarrow>
           (case find (isTypeKey K) (rev tags) of
              None \<Rightarrow> True
            | Some t \<Rightarrow> Value t = [] \<or> Value t = NodeGroupTypeUnmanaged K)))"
  by (auto simp: GetNodeGroupType_def Let_def GetNodegroupTagName_find scanNodeGroupType_find
      split: option.splits)

theorem GetNodeGroupType_error_and_default_witness:
  "\<not> isl (GetNodeGroupType eksctl_consts
       [\<lparr>Key = ''alpha.eksctl.io/nodegroup-name'', Value = ''ng-1''\<rparr>,
        \<lparr>Key = ''alpha.eksctl.io/nodegroup-type'', Value = ''unmanaged''\<rparr>])
   \<and> GetNodeGroupType eksctl_consts
       [\<lparr>Key = ''alpha.eksctl.io/nodegroup-name'', Value = ''ng-1''\<rparr>,
        \<lparr>Key = ''alpha.eksctl.io/nodegroup-type'', Value = ''unmanaged''\<rparr>]
     = Inr (NodeGroupTypeUnmanaged eksctl_consts)"
  using GetNodeGroupType_error_and_default [of eksctl_consts
       "[\<lparr>Key = ''alpha.eksctl.io/nodegroup-name'', Value = ''ng-1''\<rparr>,
        \<lparr>Key = ''alpha.eksctl.io/nodegroup-type'', Value = ''unmanaged''\<rparr>]"]
  by (simp add: isNameKey_def isTypeKey_def eksctl_consts_def)

text \<open>
  As stated, C4 fails on the tags that \<open>createNodeGroupTask\<close> attaches to an unmanaged
  node group: a name tag and a type tag are present and the result is Unmanaged. It also
  fails on a name tag with an empty value: the tag is present and the result is the error.
\<close>

theorem GetNodeGroupType_counterexample:
  "hasNameTag eksctl_consts
     [\<lparr>Key = ''alpha.eksctl.io/nodegroup-name'', Value = ''ng-1''\<rparr>,
      \<lparr>Key = ''eksctl.cluster.k8s.io/v1alpha1/nodegroup-name'', Value = ''ng-1''\<rparr>,
      \<lparr>Key = ''alpha.eksctl.io/nodegroup-type'', Value = ''unmanaged''\<rparr>]
   \<and> hasTypeTag eksctl_consts
     [\<lparr>Key = ''alpha.eksctl.io/nodegroup-name'', Value = ''ng-1''\<rparr>,
      \<lparr>Key = ''eksctl.cluster.k8s.io/v1alpha1/nodegroup-name'', Value = ''ng-1''\<rparr>,
      \<lparr>Key = ''alpha.eksctl.io/nodegroup-type'', Value = ''unmanaged''\<rparr>]
   \<and> GetNodeGroupType eksctl_consts
     [\<lparr>Key = ''alpha.eksctl.io/nodegroup-name'', Value = ''ng-1''\<rparr>,
      \<lparr>Key = ''eksctl.cluster.k8s.io/v1alpha1/nodegroup-name'', Value = ''ng-1''\<rparr>,
      \<lparr>Key = ''alpha.eksctl.io/nodegroup-type'', Value = ''unmanaged''\<rparr>]
     = Inr (NodeGroupTypeUnmanaged eksctl_consts)
   \<and> hasNameTag eksctl_consts [\<lparr>Key = ''alpha.eksctl.io/nodegroup-name'', Value = []\<rparr>]
   \<and> GetNodeGroupType eksctl_consts [\<lparr>Key = ''alpha.eksctl.io/nodegroup-name'', Value = []\<rparr>]
     = Inl (New ''failed to find the nodegroup name tag'')"
  by (simp add: hasNameTag_def hasTypeTag_def isNameKey_def isTypeKey_def eksctl_consts_def
      GetNodeGroupType_def)

subsection \<open>The name of a node-group stack\<close>

text \<open>
  C5, amended. \<open>GetNodeGroupName\<close> returns the value of the first tag in list order
  whose key is any of the three name keys, when that value is not empty; otherwise the
  name that the suffix of the stack name gives (\<open>-nodegroup-0\<close>, then
  \<open>-DefaultNodeGroup\<close>), otherwise the empty string. This is the precedence of the
  specification whenever at most one name-identifying tag is present and its value is
  not empty.
\<close>

theorem GetNodeGroupName_first_name_tag:
  "GetNodeGroupName K s =
     (case find (isNameKey K) (Tags s) of
        None \<Rightarrow> legacyNameOfStackName (StackName s)
      | Some t \<Rightarrow> if Value t \<noteq> [] then Value t else legacyNameOfStackName (StackName s))
   \<and> (length (filter (isNameKey K) (Tags s)) \<le> 1
        \<and> (case find (isNameKey K) (Tags s) of None \<Rightarrow> True | Some t \<Rightarrow> Value t \<noteq> [])
      \<longrightarrow> GetNodeGroupName K s = spec_GetNodeGroupName K s)"
proof (intro conjI impI)
  show first: "GetNodeGroupName K s =
     (case find (isNameKey K) (Tags s) of
        None \<Rightarrow> legacyNameOfStackName (StackName s)
      | Some t \<Rightarrow> if Value t \<noteq> [] then Value t else legacyNameOfStackName (StackName s))"
    by (simp add: GetNodeGroupName_legacy GetNodegroupTagName_find split: option.splits)
  assume a: "length (filter (isNameKey K) (Tags s)) \<le> 1
        \<and> (case find (isNameKey K) (Tags s) of None \<Rightarrow> True | Some t \<Rightarrow> Value t \<noteq> [])"
  then have u: "(case tagValue (NodeGroupNameTag K) (Tags s) of
            Some v \<Rightarrow> Some v
          | None \<Rightarrow>
             (case tagValue (OldNodeGroupNameTag K) (Tags s) of
                Some v \<Rightarrow> Some v
              | None \<Rightarrow> tagValue (OldNodeGroupIDTag K) (Tags s)))
         = map_option Value (find (isNameKey K) (Tags s))"
    using spec_GetNodeGroupName_unique by blast
  have "spec_GetNodeGroupName K s =
      (case map_option Value (find (isNameKey K) (Tags s)) of
         None \<Rightarrow> legacyNameOfStackName (StackName s) | Some v \<Rightarrow> v)"
    unfolding u [symmetric] by (simp add: spec_GetNodeGroupName_def split: option.splits)
  with a first show "GetNodeGroupName K s = spec_GetNodeGroupName K s"
    by (simp split: option.splits)
qed

theorem GetNodeGroupName_first_name_tag_witness:
  "length (filter (isNameKey eksctl_consts)
      [\<lparr>Key = ''eksctl.cluster.k8s.io/v1alpha1/nodegroup-id'', Value = ''old-id''\<rparr>]) \<le> 1
   \<and> GetNodeGroupName eksctl_consts
     \<lparr>StackName = ''eksctl-c-nodegroup-0'', StackStatus = ''CREATE_COMPLETE'',
      Tags = [\<lparr>Key = ''eksctl.cluster.k8s.io/v1alpha1/nodegroup-id'', Value = ''old-id''\<rparr>]\<rparr>
     = spec_GetNodeGroupName eksctl_consts
     \<lparr>StackName = ''eksctl-c-nodegroup-0'', StackStatus = ''CREATE_COMPLETE'',
      Tags = [\<lparr>Key = ''eksctl.cluster.k8s.io/v1alpha1/nodegroup-id'', Value = ''old-id''\<rparr>]\<rparr>"
  using GetNodeGroupName_first_name_tag [of eksctl_consts
     "\<lparr>StackName = ''eksctl-c-nodegroup-0'', StackStatus = ''CREATE_COMPLETE'',
      Tags = [\<lparr>Key = ''eksctl.cluster.k8s.io/v1alpha1/nodegroup-id'', Value = ''old-id''\<rparr>]\<rparr>",
     THEN conjunct2]
  by (simp add: isNameKey_def eksctl_consts_def)

text \<open>
  As stated, C5 fails when a legacy id tag precedes the current name tag in the list: the
  code returns the legacy id, the precedence of the specification the current name.
\<close>

theorem GetNodeGroupName_counterexample:
  "GetNodeGroupName eksctl_consts
     \<lparr>StackName = ''eksctl-c-nodegroup-ng-1'', StackStatus = ''CREATE_COMPLETE'',
      Tags = [\<lparr>Key = ''eksctl.cluster.k8s.io/v1alpha1/nodegroup-id'', Value = ''old-id''\<rparr>,
              \<lparr>Key = ''alpha.eksctl.io/nodegroup-name'', Value = ''ng-1''\<rparr>]\<rparr> = ''old-id''
   \<and> spec_GetNodeGroupName eksctl_consts
     \<lparr>StackName = ''eksctl-c-nodegroup-ng-1'', StackStatus = ''CREATE_COMPLETE'',
      Tags = [\<lparr>Key = ''eksctl.cluster.k8s.io/v1alpha1/nodegroup-id'', Value = ''old-id''\<rparr>,
              \<lparr>Key = ''alpha.eksctl.io/nodegroup-name'', Value = ''ng-1''\<rparr>]\<rparr> = ''ng-1''"
  by (simp add: GetNodeGroupName_def spec_GetNodeGroupName_def tagValue_def eksctl_consts_def)

subsection \<open>Managed node groups on unowned IPv6 clusters\<close>

text \<open>
  C6. When \<open>DescribeClusterStack\<close> finds no cluster stack (nil, without error) and the
  cluster has IPv6 enabled, \<open>createManagedNodeGroupTask\<close> returns the error "managed
  nodegroups cannot be created on IPv6 unowned clusters" synchronously: the only call it
  has made is the one describing the cluster stack, nothing is built, no stack is
  submitted and nothing is sent on the channel.
\<close>

theorem createManagedNodeGroupTask_unowned_ipv6:
  assumes "DescribeClusterStack c = Inr None" and "IPv6Enabled c"
  shows "createManagedNodeGroupTask c ng w =
     (Some (New ''managed nodegroups cannot be created on IPv6 unowned clusters''),
      w\<lparr>calls := calls w @ [CallDescribeClusterStack]\<rparr>)"
  using assms by (simp add: createManagedNodeGroupTask_def emit_def Let_def)

theorem createManagedNodeGroupTask_unowned_ipv6_witness:
  "createManagedNodeGroupTask ((mockCollection None)\<lparr>IPv6Enabled := True\<rparr>) (testNodeGroup 1) world0 =
     (Some (New ''managed nodegroups cannot be created on IPv6 unowned clusters''),
      \<lparr>calls = [CallDescribeClusterStack], errorCh = [], logged = []\<rparr>)"
  using createManagedNodeGroupTask_unowned_ipv6
    [of "(mockCollection None)\<lparr>IPv6Enabled := True\<rparr>" "testNodeGroup 1" world0]
  by (simp add: mockCollection_def world0_def)

subsection \<open>The stacks that are node groups\<close>

text \<open>
  C7. For every stack list that \<open>DescribeStacks\<close> returns, \<open>DescribeNodeGroupStacks\<close>
  returns without error exactly the stacks, in order, whose status is neither
  delete-complete nor delete-failed and whose node-group name resolves to a non-empty
  string.
\<close>

theorem DescribeNodeGroupStacks_filter:
  assumes "DescribeStacks c = Inr stacks"
  shows "fst (DescribeNodeGroupStacks K c w) =
     Inr (filter (\<lambda>s. StackStatus s \<noteq> StackStatusDeleteComplete
                      \<and> StackStatus s \<noteq> StackStatusDeleteFailed
                      \<and> GetNodeGroupName K s \<noteq> []) stacks)"
  using assms nodeGroupStacksLoop_filter [of K stacks "[]" w]
  by (cases stacks) (simp_all add: DescribeNodeGroupStacks_def split_beta)

theorem DescribeNodeGroupStacks_filter_witness:
  "fst (DescribeNodeGroupStacks eksctl_consts
          ((mockCollection None)\<lparr>DescribeStacks := Inr listedStacks\<rparr>) world0) =
     Inr [\<lparr>StackName = ''eksctl-c-nodegroup-d'', StackStatus = ''CREATE_COMPLETE'',
           Tags = [\<lparr>Key = ''alpha.eksctl.io/nodegroup-name'', Value = ''d''\<rparr>]\<rparr>,
          \<lparr>StackName = ''eksctl-c-nodegroup-0'', StackStatus = ''UPDATE_COMPLETE'', Tags = []\<rparr>]"
  using DescribeNodeGroupStacks_filter [of "(mockCollection None)\<lparr>DescribeStacks := Inr listedStacks\<rparr>"
      listedStacks eksctl_consts world0]
  by (simp add: listedStacks_def StackStatusDeleteComplete_def StackStatusDeleteFailed_def
      GetNodeGroupName_def HasSuffix_def eksctl_consts_def)

subsection \<open>Failures of the external services\<close>

text \<open>
  C8, amended. A failure of describe-node-group or of the tagging call in the
  propagation task is returned wrapped with the name of the node group, and a failure of
  \<open>DescribeStackResource\<close> is returned as it is by
  \<open>GetUnmanagedNodeGroupAutoScalingGroupName\<close>. A failure of describe-node-group in
  \<open>getManagedNodeGroupAutoScalingGroupName\<close> is logged as a warning and the function
  returns the empty string with a nil error.
\<close>

theorem external_failures:
  "(DescribeNodegroup c \<lparr>ClusterName = getClusterNameTag c s, NodegroupName = GetNodeGroupName K s\<rparr>
      = Inl err \<longrightarrow>
      fst (getManagedNodeGroupAutoScalingGroupName K c s w) = Inr []
      \<and> logged (snd (getManagedNodeGroupAutoScalingGroupName K c s w)) =
          logged w @ [Warning ''couldn't get managed nodegroup details for stack %q'' [StackName s]])
   \<and> (DescribeStackResource c \<lparr>InputStackName = StackName s, LogicalResourceId = ''NodeGroup''\<rparr>
      = Inl err \<longrightarrow>
      fst (GetUnmanagedNodeGroupAutoScalingGroupName c s w) = Inl err)
   \<and> (DisableASGTagPropagation ng \<noteq> Some True
      \<and> DescribeNodegroup c \<lparr>ClusterName = MetadataName c, NodegroupName = Name ng\<rparr> = Inl err \<longrightarrow>
      fst (propagateManagedNodeGroupTagsToASGTask c ng w) =
        Some (Wrapf err ''couldn't get managed nodegroup details for nodegroup %q'' [Name ng]))
   \<and> (DisableASGTagPropagation ng \<noteq> Some True
      \<and> DescribeNodegroup c \<lparr>ClusterName = MetadataName c, NodegroupName = Name ng\<rparr> = Inr res
      \<and> Resources res = Some asgs
      \<and> CreateOrUpdateTags c (asgLoop asgs (ngTags ng) []) = Some err \<longrightarrow>
      fst (propagateManagedNodeGroupTagsToASGTask c ng w) =
        Some (Wrapf err ''creating or updating asg tags for managed nodegroup %q'' [Name ng]))"
  by (auto simp: getManagedNodeGroupAutoScalingGroupName_def
      GetUnmanagedNodeGroupAutoScalingGroupName_def propagateManagedNodeGroupTagsToASGTask_def
      Let_def emit_def logline_def)

theorem external_failures_witness:
  "fst (getManagedNodeGroupAutoScalingGroupName eksctl_consts failingDescribe managedStack world0)
     = Inr []
   \<and> logged (snd (getManagedNodeGroupAutoScalingGroupName eksctl_consts failingDescribe
        managedStack world0)) =
       [Warning ''couldn't get managed nodegroup details for stack %q'' [''eksctl-c-nodegroup-ng-1'']]
   \<and> fst (GetUnmanagedNodeGroupAutoScalingGroupName
        ((mockCollection None)\<lparr>DescribeStackResource := (\<lambda>_. Inl (ServiceError ''ValidationError''))\<rparr>)
        managedStack world0) = Inl (ServiceError ''ValidationError'')
   \<and> fst (propagateManagedNodeGroupTagsToASGTask failingDescribe (testNodeGroup 1) world0) =
       Some (Wrapf (ServiceError ''ResourceNotFoundException'')
               ''couldn't get managed nodegroup details for nodegroup %q'' [''ng-test-name''])
   \<and> fst (propagateManagedNodeGroupTagsToASGTask failingTagging (testNodeGroup 1) world0) =
       Some (Wrapf (ServiceError ''ValidationError'')
               ''creating or updating asg tags for managed nodegroup %q'' [''ng-test-name''])"
  using external_failures [where c = failingDescribe and s = managedStack and K = eksctl_consts
      and w = world0 and ng = "testNodeGroup 1" and err = "ServiceError ''ResourceNotFoundException''"]
    external_failures [where c = "(mockCollection None)\<lparr>DescribeStackResource :=
        (\<lambda>_. Inl (ServiceError ''ValidationError''))\<rparr>" and s = managedStack and w = world0
      and err = "ServiceError ''ValidationError''"]
    external_failures [where c = failingTagging and w = world0 and ng = "testNodeGroup 1"
      and res = "\<lparr>Resources = Some [''asg-test-name'']\<rparr>" and asgs = "[''asg-test-name'']"
      and err = "ServiceError ''ValidationError''"]
  by (simp add: failingDescribe_def failingTagging_def mockCollection_def managedStack_def
      testNodeGroup_def world0_def)

text \<open>
  As stated, C8 fails for the stack of a managed node group whose describe-node-group
  call fails: \<open>GetAutoScalingGroupName\<close> returns the empty name and no error.
\<close>

theorem external_failures_counterexample:
  "GetAutoScalingGroupName eksctl_consts failingDescribe managedStack world0 =
     (Inr [],
      \<lparr>calls = [CallDescribeNodegroup \<lparr>ClusterName = ''test-cluster'', NodegroupName = ''ng-1''\<rparr>],
       errorCh = [],
       logged = [Warning ''couldn't get managed nodegroup details for stack %q''
                   [''eksctl-c-nodegroup-ng-1'']]\<rparr>)"
  by (simp add: GetAutoScalingGroupName_def GetNodeGroupType_def GetNodeGroupName_def
      getManagedNodeGroupAutoScalingGroupName_def failingDescribe_def mockCollection_def
      managedStack_def eksctl_consts_def world0_def emit_def logline_def Let_def)

subsection \<open>An update without changes\<close>

text \<open>
  C9, on the model of \<open>UpdateStack\<close> taken from the specification. When the stack is
  resolved, the change set is created and its wait ends in the failed state with a
  reason containing "didn't contain changes", \<open>UpdateStack\<close> returns nil and its calls
  include no execute-change-set.
\<close>

theorem UpdateStack_no_changes:
  assumes "OptStack options = Some stack
           \<or> (OptStack options = None \<and> DescribeStack svc (OptStackName options) = Inr stack)"
    and "CreateChangeSet svc
           \<lparr>ForStack = StackName stack, ForChangeSet = ChangeSetName options,
            WithTemplate = TemplateData options, WithTags = mergedTags svc stack\<rparr> = None"
    and "WaitChangeSet svc (ChangeSetName options) = Inr st"
    and "Status st = ChangeSetStatusFailed"
    and "Contains (StatusReason st) ''didn't contain changes''"
  shows "fst (UpdateStack svc options) = None
         \<and> \<not> list_ex isExecute (snd (UpdateStack svc options))"
  using assms by (auto simp: UpdateStack_def Let_def noChangeReason_def)

theorem UpdateStack_no_changes_witness:
  "Contains ''The submitted information didn't contain changes'' ''didn't contain changes''
   \<and> UpdateStack noChangeService noChangeOptions =
       (None,
        [UDescribeStack ''eksctl-stack'',
         UCreateChangeSet \<lparr>ForStack = ''eksctl-stack'', ForChangeSet = ''eksctl-changeset'',
                           WithTemplate = [],
                           WithTags = [\<lparr>Key = ''alpha.eksctl.io/cluster-name'', Value = []\<rparr>]\<rparr>,
         UWaitChangeSet ''eksctl-changeset''])
   \<and> fst (UpdateStack noChangeService noChangeOptions) = None
   \<and> \<not> list_ex isExecute (snd (UpdateStack noChangeService noChangeOptions))"
  using UpdateStack_no_changes [of noChangeOptions
      "\<lparr>StackName = ''eksctl-stack'', StackStatus = ''CREATE_COMPLETE'', Tags = []\<rparr>" noChangeService
      "\<lparr>Status = ''FAILED'', StatusReason = ''The submitted information didn't contain changes''\<rparr>"]
  by (simp add: noChangeService_def noChangeOptions_def ChangeSetStatusFailed_def
      UpdateStack_def mergedTags_def noChangeReason_def Let_def)

subsection \<open>Type values are not validated\<close>

text \<open>
  C10, amended. For every tag list whose first name-identifying tag has a non-empty
  value, \<open>GetNodeGroupType\<close> returns the value of the last type tag as it is when that
  value is not empty, whether or not it is one of the two known types, and Unmanaged when
  it is empty. A value that is neither empty nor one of the two known types is rejected
  by \<open>GetAutoScalingGroupName\<close>.
\<close>

theorem GetNodeGroupType_verbatim:
  "(case find (isNameKey K) tags of None \<Rightarrow> False | Some n \<Rightarrow> Value n \<noteq> []) \<and>
   find (isTypeKey K) (rev tags) = Some t \<and> Tags s = tags \<longrightarrow>
     GetNodeGroupType K tags = Inr (if Value t = [] then NodeGroupTypeUnmanaged K else Value t)
     \<and> (Value t \<noteq> [] \<and> Value t \<noteq> NodeGroupTypeManaged K \<and> Value t \<noteq> NodeGroupTypeUnmanaged K \<longrightarrow>
          GetAutoScalingGroupName K c s w =
            (Inl (Errorf ''cant get autoscaling group name, because unexpected nodegroup type : %q''
                    [Value t]), w))"
  by (auto simp: GetNodeGroupType_def GetAutoScalingGroupName_def Let_def GetNodegroupTagName_find
      scanNodeGroupType_find split: option.splits)

theorem GetNodeGroupType_verbatim_witness:
  "GetNodeGroupType eksctl_consts spotTags = Inr ''spot''
   \<and> GetAutoScalingGroupName eksctl_consts (mockCollection None)
        \<lparr>StackName = ''eksctl-c-nodegroup-ng-1'', StackStatus = ''CREATE_COMPLETE'', Tags = spotTags\<rparr>
        world0 =
      (Inl (Errorf ''cant get autoscaling group name, because unexpected nodegroup type : %q''
              [''spot'']), world0)"
  using GetNodeGroupType_verbatim [of eksctl_consts spotTags
      "\<lparr>Key = ''alpha.eksctl.io/nodegroup-type'', Value = ''spot''\<rparr>"
      "\<lparr>StackName = ''eksctl-c-nodegroup-ng-1'', StackStatus = ''CREATE_COMPLETE'', Tags = spotTags\<rparr>"
      "mockCollection None" world0]
  by (simp add: spotTags_def isNameKey_def isTypeKey_def eksctl_consts_def)

text \<open>
  As stated, for every tag list containing a name-identifying tag, C10 fails when that
  tag has an empty value: the result is the error, not the value of the type tag.
\<close>

theorem GetNodeGroupType_verbatim_counterexample:
  "hasNameTag eksctl_consts
     [\<lparr>Key = ''alpha.eksctl.io/nodegroup-name'', Value = []\<rparr>,
      \<lparr>Key = ''alpha.eksctl.io/nodegroup-type'', Value = ''spot''\<rparr>]
   \<and> GetNodeGroupType eksctl_consts
     [\<lparr>Key = ''alpha.eksctl.io/nodegroup-name'', Value = []\<rparr>,
      \<lparr>Key = ''alpha.eksctl.io/nodegroup-type'', Value = ''spot''\<rparr>]
     = Inl (New ''failed to find the nodegroup name tag'')"
  by (simp add: hasNameTag_def isNameKey_def eksctl_consts_def GetNodeGroupType_def)

end
